theory Spec2Isabelle
  imports Main "HOL-Library.Word"
begin

section \<open>Python values\<close>

text \<open>
  The program (\<^verbatim>\<open>adapter/forum_memory.py\<close>) moves untyped Python values between
  memory and a JSON file. A value is what \<^verbatim>\<open>json.load\<close> can return: \<^verbatim>\<open>None\<close>, a bool,
  an int, a float (kept as the bit pattern of its C double), a str, a list or a dict with
  str keys. A str is a \<open>string\<close> holding its UTF-8 bytes. A dict is an association list
  read with \<open>map_of\<close>.
\<close>

datatype pyval =
    PNone
  | PBool bool
  | PInt int
  | PFloat "64 word"
  | PStr string
  | PList "pyval list"
  | PDict "(string \<times> pyval) list"

text \<open>The exceptions the program can meet. Each is a value; \<open>Inl\<close> carries a raised one.\<close>

datatype error =
    KeyError string
  | TypeError
  | ValueError
  | AttributeError
  | OSError
  | JSONDecodeError

text \<open>\<^verbatim>\<open>data[key]\<close>: a missing key raises KeyError, a value that is no dict TypeError
  (a list or a str indexed by a str, or a value that cannot be subscripted).\<close>

definition subscript :: "pyval \<Rightarrow> string \<Rightarrow> error + pyval" where
  "subscript data k =
     (case data of
        PDict kv \<Rightarrow> (case map_of kv k of None \<Rightarrow> Inl (KeyError k) | Some v \<Rightarrow> Inr v)
      | _ \<Rightarrow> Inl TypeError)"

text \<open>\<^verbatim>\<open>data.get(key, default)\<close>: only a dict has the method.\<close>

definition dict_get :: "pyval \<Rightarrow> string \<Rightarrow> pyval \<Rightarrow> error + pyval" where
  "dict_get data k dflt =
     (case data of
        PDict kv \<Rightarrow> (case map_of kv k of None \<Rightarrow> Inr dflt | Some v \<Rightarrow> Inr v)
      | _ \<Rightarrow> Inl AttributeError)"

section \<open>Timestamps\<close>

text \<open>
  A \<^verbatim>\<open>datetime\<close>: its seven fields and its offset from UTC in microseconds. The offset
  is \<open>None\<close> for a naive datetime, which is what \<^verbatim>\<open>datetime.now()\<close> makes; a datetime
  read from a string that names an offset has one. The class only ever holds fields in
  range, and an offset of less than a day; \<open>valid_datetime\<close> is that range.
\<close>

record datetime =
  year :: nat
  month :: nat
  day :: nat
  hour :: nat
  minute :: nat
  second :: nat
  microsecond :: nat
  utcoffset :: "int option"

definition is_leap :: "nat \<Rightarrow> bool" where
  "is_leap y = (y mod 4 = 0 \<and> (y mod 400 = 0 \<or> y mod 100 \<noteq> 0))"

definition days_in_month :: "nat \<Rightarrow> nat \<Rightarrow> nat" where
  "days_in_month y m =
     (if m = 2 then (if is_leap y then 29 else 28)
      else if m = 4 \<or> m = 6 \<or> m = 9 \<or> m = 11 then 30
      else 31)"

definition valid_datetime :: "datetime \<Rightarrow> bool" where
  "valid_datetime t =
     (1 \<le> year t \<and> year t \<le> 9999 \<and> 1 \<le> month t \<and> month t \<le> 12 \<and>
      1 \<le> day t \<and> day t \<le> days_in_month (year t) (month t) \<and>
      hour t < 24 \<and> minute t < 60 \<and> second t < 60 \<and> microsecond t < 1000000 \<and>
      (case utcoffset t of
         None \<Rightarrow> True
       | Some off \<Rightarrow> - 86400000000 < off \<and> off < 86400000000))"

subsection \<open>Decimal fields\<close>

text \<open>The ten decimal digits and their values.\<close>

definition digit_table :: "(char \<times> nat) list" where
  "digit_table =
     [(CHR ''0'', 0), (CHR ''1'', 1), (CHR ''2'', 2), (CHR ''3'', 3), (CHR ''4'', 4),
      (CHR ''5'', 5), (CHR ''6'', 6), (CHR ''7'', 7), (CHR ''8'', 8), (CHR ''9'', 9)]"

definition digit_char :: "nat \<Rightarrow> char" where
  "digit_char d = fst (digit_table ! (d mod 10))"

definition digit_of :: "char \<Rightarrow> nat option" where
  "digit_of c = map_of digit_table c"

text \<open>\<^verbatim>\<open>%0wd\<close> of a number below \<open>10 ^ w\<close>: exactly \<open>w\<close> digits, zero padded.\<close>

fun digits :: "nat \<Rightarrow> nat \<Rightarrow> string" where
  "digits 0 n = []"
| "digits (Suc w) n = digits w (n div 10) @ [digit_char (n mod 10)]"

text \<open>Reading exactly \<open>w\<close> digits from the front of a string; the rest is returned.\<close>

fun take_digits :: "nat \<Rightarrow> nat \<Rightarrow> string \<Rightarrow> (nat \<times> string) option" where
  "take_digits 0 acc s = Some (acc, s)"
| "take_digits (Suc w) acc [] = None"
| "take_digits (Suc w) acc (c # s) =
     (case digit_of c of None \<Rightarrow> None | Some d \<Rightarrow> take_digits w (10 * acc + d) s)"

fun expect :: "char \<Rightarrow> string \<Rightarrow> string option" where
  "expect c [] = None"
| "expect c (x # s) = (if x = c then Some s else None)"

subsection \<open>isoformat, fromisoformat, strftime\<close>

text \<open>
  The offset as \<^verbatim>\<open>isoformat\<close> writes it: the sign, \<^verbatim>\<open>HH:MM\<close>, then \<^verbatim>\<open>:SS\<close> unless seconds
  and microseconds are both zero, then \<^verbatim>\<open>.ffffff\<close> unless the microseconds are zero.
\<close>

definition format_offset :: "int \<Rightarrow> string" where
  "format_offset off =
     (let a = nat \<bar>off\<bar>;
          us = a mod 1000000;
          ss = a div 1000000 mod 60;
          mm = a div 1000000 div 60 mod 60;
          hh = a div 1000000 div 60 div 60
      in (if off < 0 then ''-'' else ''+'') @ digits 2 hh @ '':'' @ digits 2 mm @
         (if ss = 0 \<and> us = 0 then []
          else '':'' @ digits 2 ss @ (if us = 0 then [] else ''.'' @ digits 6 us)))"

text \<open>
  \<^verbatim>\<open>datetime.isoformat()\<close>: \<^verbatim>\<open>YYYY-MM-DDTHH:MM:SS\<close>, followed by \<^verbatim>\<open>.ffffff\<close> when the
  microsecond is not zero, followed by the offset when the datetime has one.
\<close>

definition isoformat :: "datetime \<Rightarrow> string" where
  "isoformat t =
     digits 4 (year t) @ ''-'' @ digits 2 (month t) @ ''-'' @ digits 2 (day t) @ ''T'' @
     digits 2 (hour t) @ '':'' @ digits 2 (minute t) @ '':'' @ digits 2 (second t) @
     (if microsecond t \<noteq> 0 then ''.'' @ digits 6 (microsecond t) else []) @
     (case utcoffset t of None \<Rightarrow> [] | Some off \<Rightarrow> format_offset off)"

text \<open>
  The fractional part: nothing, or a dot and six digits.
\<close>

definition parse_fraction :: "string \<Rightarrow> nat option" where
  "parse_fraction s =
     (if s = [] then Some 0
      else Option.bind (expect CHR ''.'' s) (\<lambda>s1.
           Option.bind (take_digits 6 0 s1) (\<lambda>(us, s2).
             if s2 = [] then Some us else None)))"

text \<open>
  The two spellings \<open>isoformat\<close> writes for a naive datetime, read back: the fields, and
  then the ranges that building the datetime checks. Every version of
  \<^verbatim>\<open>datetime.fromisoformat\<close> reads a string of these spellings to this result.
\<close>

definition parse_date :: "string \<Rightarrow> ((nat \<times> nat \<times> nat) \<times> string) option" where
  "parse_date s =
     Option.bind (take_digits 4 0 s) (\<lambda>(y, s1).
     Option.bind (expect CHR ''-'' s1) (\<lambda>s2.
     Option.bind (take_digits 2 0 s2) (\<lambda>(mo, s3).
     Option.bind (expect CHR ''-'' s3) (\<lambda>s4.
     Option.bind (take_digits 2 0 s4) (\<lambda>(d, s5). Some ((y, mo, d), s5))))))"

definition parse_time :: "string \<Rightarrow> ((nat \<times> nat \<times> nat) \<times> string) option" where
  "parse_time s =
     Option.bind (take_digits 2 0 s) (\<lambda>(h, s1).
     Option.bind (expect CHR '':'' s1) (\<lambda>s2.
     Option.bind (take_digits 2 0 s2) (\<lambda>(mi, s3).
     Option.bind (expect CHR '':'' s3) (\<lambda>s4.
     Option.bind (take_digits 2 0 s4) (\<lambda>(sec, s5). Some ((h, mi, sec), s5))))))"

definition parse_isoformat :: "string \<Rightarrow> datetime option" where
  "parse_isoformat s =
     Option.bind (parse_date s) (\<lambda>((y, mo, d), s1).
     Option.bind (expect CHR ''T'' s1) (\<lambda>s2.
     Option.bind (parse_time s2) (\<lambda>((h, mi, sec), s3).
     Option.bind (parse_fraction s3) (\<lambda>us.
       (let t = \<lparr>year = y, month = mo, day = d, hour = h, minute = mi, second = sec,
                  microsecond = us, utcoffset = None\<rparr>
        in if valid_datetime t then Some t else None)))))"

text \<open>
  \<^verbatim>\<open>datetime.fromisoformat(v)\<close>: TypeError unless \<open>v\<close> is a str, ValueError when the
  string does not parse. Which strings of other spellings parse (a date alone, a space for
  the \<^verbatim>\<open>T\<close>, a fraction of three digits, an offset from UTC), and to what, differs between
  the versions of Python. That part of the library is the parameter \<open>ext\<close>: \<open>ext s\<close> is
  the datetime the library reads from such a string \<open>s\<close>, and \<open>None\<close> when it raises.
\<close>

type_synonym iso_ext = "string \<Rightarrow> datetime option"

definition fromisoformat :: "iso_ext \<Rightarrow> pyval \<Rightarrow> error + datetime" where
  "fromisoformat ext v =
     (case v of
        PStr s \<Rightarrow>
          (case parse_isoformat s of
             Some t \<Rightarrow> Inr t
           | None \<Rightarrow> (case ext s of None \<Rightarrow> Inl ValueError | Some t \<Rightarrow> Inr t))
      | _ \<Rightarrow> Inl TypeError)"

text \<open>\<^verbatim>\<open>strftime("%m-%d %H:%M")\<close>.\<close>

definition strftime_md_hm :: "datetime \<Rightarrow> string" where
  "strftime_md_hm t =
     digits 2 (month t) @ ''-'' @ digits 2 (day t) @ '' '' @
     digits 2 (hour t) @ '':'' @ digits 2 (minute t)"

section \<open>MemoryItem\<close>

text \<open>
  The dataclass \<^verbatim>\<open>MemoryItem\<close>. Its fields are annotated \<^verbatim>\<open>str\<close> and \<^verbatim>\<open>dict\<close>, but
  \<^verbatim>\<open>from_dict\<close> stores whatever the record holds, so both are values.
\<close>

record memory_item =
  content :: pyval
  timestamp :: datetime
  metadata :: pyval

definition to_dict :: "memory_item \<Rightarrow> pyval" where
  "to_dict item =
     PDict [(''memory_type'', PStr ''diary''),
            (''content'', content item),
            (''timestamp'', PStr (isoformat (timestamp item))),
            (''metadata'', metadata item)]"

text \<open>
  The keyword arguments are evaluated in the order written: \<^verbatim>\<open>data["content"]\<close>, then
  \<^verbatim>\<open>data["timestamp"]\<close> and its parse, then \<^verbatim>\<open>data.get("metadata", {})\<close>. The first
  exception ends the call.
\<close>

definition from_dict :: "iso_ext \<Rightarrow> pyval \<Rightarrow> error + memory_item" where
  "from_dict ext data =
     (case subscript data ''content'' of Inl e \<Rightarrow> Inl e | Inr c \<Rightarrow>
     (case subscript data ''timestamp'' of Inl e \<Rightarrow> Inl e | Inr tv \<Rightarrow>
     (case fromisoformat ext tv of Inl e \<Rightarrow> Inl e | Inr t \<Rightarrow>
     (case dict_get data ''metadata'' (PDict []) of Inl e \<Rightarrow> Inl e | Inr md \<Rightarrow>
        Inr \<lparr>content = c, timestamp = t, metadata = md\<rparr>))))"

section \<open>ForumMemory\<close>

subsection \<open>The object and the part of the world it acts on\<close>

text \<open>
  A path is its list of components: \<^verbatim>\<open>dir / "forum_memory.json"\<close> appends one, \<^verbatim>\<open>.parent\<close>
  drops the last.
\<close>

type_synonym path = "string list"

text \<open>
  What the program meets at the storage path. \<^verbatim>\<open>Path.exists()\<close> raises (it passes on
  every OSError but a few, a missing permission to search the directory among them), or
  returns false, or returns true; in the last case \<^verbatim>\<open>open\<close> or \<^verbatim>\<open>json.load\<close> raises, or
  \<^verbatim>\<open>json.load\<close> returns a value.
\<close>

datatype file_state = Stat_fails error | Absent | Unreadable error | Holds pyval

text \<open>
  One constructor for each call of the logger in the source, with the exception or the
  count it prints. The content preview of the debug line of \<^verbatim>\<open>add_diary\<close> is left out.
\<close>

datatype log_event =
    Warning_get_data_dir_failed error
  | Debug_loaded nat
  | Error_failed_to_load error
  | Error_failed_to_save error
  | Debug_added_diary
  | Info_cleared

text \<open>
  The methods \<^verbatim>\<open>__init__\<close>, \<^verbatim>\<open>_load\<close>, \<^verbatim>\<open>_save\<close> and \<^verbatim>\<open>__len__\<close> are \<open>init\<close>, \<open>load\<close>,
  \<open>save\<close> and \<open>len\<close> here, a name being unable to start with an underscore.
  \<open>max_items\<close>, \<open>memories\<close> and \<open>storage_path\<close> are the attributes of the object.
  \<open>backing_file\<close> is the file at \<open>storage_path\<close> and \<open>logged\<close> is what the logger has
  received: the world the methods act on, passed along with the object.
\<close>

record forum_memory =
  max_items :: int
  memories :: "memory_item list"
  storage_path :: path
  backing_file :: file_state
  logged :: "log_event list"

text \<open>
  What the program finds when it is constructed: what \<^verbatim>\<open>StarTools.get_data_dir\<close> returns
  or raises, what the import and the call of \<^verbatim>\<open>get_astrbot_data_path\<close> return or raise,
  what \<^verbatim>\<open>os.makedirs\<close> raises if anything, and the file at each path.
\<close>

record env =
  get_data_dir :: "error + path"
  astrbot_data_path :: "error + path"
  makedirs :: "path \<Rightarrow> error option"
  files :: "path \<Rightarrow> file_state"

subsection \<open>Slices\<close>

text \<open>
  \<^verbatim>\<open>xs[i:]\<close> and \<^verbatim>\<open>xs[:j]\<close>. A negative index counts from the end; an index beyond either
  end is clipped, which \<open>nat\<close>, \<open>drop\<close> and \<open>take\<close> do.
\<close>

definition slice_from :: "int \<Rightarrow> 'a list \<Rightarrow> 'a list" where
  "slice_from i xs = drop (nat (if i < 0 then int (length xs) + i else i)) xs"

definition slice_to :: "int \<Rightarrow> 'a list \<Rightarrow> 'a list" where
  "slice_to j xs = take (nat (if j < 0 then int (length xs) + j else j)) xs"

subsection \<open>Saving and loading\<close>

text \<open>
  A write either succeeds, or raises and leaves some file behind. \<^verbatim>\<open>_save\<close> catches the
  exception and logs it.
\<close>

datatype write_outcome = Written | Write_failed error file_state

definition save :: "write_outcome \<Rightarrow> forum_memory \<Rightarrow> forum_memory" where
  "save w s =
     (case w of
        Written \<Rightarrow> s\<lparr>backing_file := Holds (PList (map to_dict (memories s)))\<rparr>
      | Write_failed e f \<Rightarrow>
          s\<lparr>backing_file := f, logged := logged s @ [Error_failed_to_save e]\<rparr>)"

text \<open>
  \<^verbatim>\<open>for d in data\<close>: a list gives its elements, a dict its keys, a str its characters
  (each a str again); anything else is not iterable.
\<close>

definition py_iter :: "pyval \<Rightarrow> error + pyval list" where
  "py_iter data =
     (case data of
        PList xs \<Rightarrow> Inr xs
      | PDict kv \<Rightarrow> Inr (map (\<lambda>(k, v). PStr k) kv)
      | PStr cs \<Rightarrow> Inr (map (\<lambda>c. PStr [c]) cs)
      | _ \<Rightarrow> Inl TypeError)"

text \<open>\<^verbatim>\<open>d.get("memory_type") == "diary"\<close>.\<close>

definition is_diary :: "pyval \<Rightarrow> error + bool" where
  "is_diary d =
     (case dict_get d ''memory_type'' PNone of
        Inl e \<Rightarrow> Inl e
      | Inr v \<Rightarrow> Inr (v = PStr ''diary''))"

text \<open>
  The list comprehension of \<^verbatim>\<open>_load\<close>: for each element in turn the condition, then
  \<^verbatim>\<open>from_dict\<close> when it holds. The first exception ends it.
\<close>

fun load_items :: "iso_ext \<Rightarrow> pyval list \<Rightarrow> error + memory_item list" where
  "load_items ext [] = Inr []"
| "load_items ext (d # ds) =
     (case is_diary d of
        Inl e \<Rightarrow> Inl e
      | Inr b \<Rightarrow>
          (if b then
             (case from_dict ext d of
                Inl e \<Rightarrow> Inl e
              | Inr m \<Rightarrow>
                  (case load_items ext ds of Inl e \<Rightarrow> Inl e | Inr ms \<Rightarrow> Inr (m # ms)))
           else load_items ext ds))"

text \<open>The body of the \<^verbatim>\<open>try\<close> of \<^verbatim>\<open>_load\<close>, after the file was read.\<close>

definition load_data :: "iso_ext \<Rightarrow> pyval \<Rightarrow> error + memory_item list" where
  "load_data ext data =
     (case py_iter data of Inl e \<Rightarrow> Inl e | Inr ds \<Rightarrow> load_items ext ds)"

text \<open>
  \<^verbatim>\<open>_load\<close>. The call of \<^verbatim>\<open>exists()\<close> stands before the \<^verbatim>\<open>try\<close>: what it raises leaves
  the method. \<^verbatim>\<open>except Exception\<close> catches whatever the body of the \<^verbatim>\<open>try\<close> raises: every
  \<open>Inl\<close> of the body ends in the handler, which logs and empties the list.
\<close>

definition load :: "iso_ext \<Rightarrow> forum_memory \<Rightarrow> error + forum_memory" where
  "load ext s =
     (case backing_file s of
        Stat_fails e \<Rightarrow> Inl e
      | Absent \<Rightarrow> Inr s
      | Unreadable e \<Rightarrow>
          Inr (s\<lparr>memories := [], logged := logged s @ [Error_failed_to_load e]\<rparr>)
      | Holds data \<Rightarrow>
          (case load_data ext data of
             Inr ms \<Rightarrow>
               Inr (s\<lparr>memories := ms, logged := logged s @ [Debug_loaded (length ms)]\<rparr>)
           | Inl e \<Rightarrow>
               Inr (s\<lparr>memories := [], logged := logged s @ [Error_failed_to_load e]\<rparr>)))"

subsection \<open>Construction\<close>

text \<open>
  The storage path: under \<^verbatim>\<open>storage_dir\<close> when one is given, else under the directory
  \<^verbatim>\<open>StarTools.get_data_dir\<close> returns. When that call raises, the handler logs a warning
  and takes the fallback directory; the import and the call it makes for that are not
  guarded, and what they raise leaves \<^verbatim>\<open>__init__\<close>.
\<close>

definition resolve_storage_path ::
  "env \<Rightarrow> path option \<Rightarrow> error + (path \<times> log_event list)" where
  "resolve_storage_path E storage_dir =
     (case storage_dir of
        Some d \<Rightarrow> Inr (d @ [''forum_memory.json''], [])
      | None \<Rightarrow>
          (case get_data_dir E of
             Inr d \<Rightarrow> Inr (d @ [''forum_memory.json''], [])
           | Inl e \<Rightarrow>
               (case astrbot_data_path E of
                  Inl e' \<Rightarrow> Inl e'
                | Inr root \<Rightarrow>
                    Inr (root @
                           [''plugin_data'', ''astrbot-plugin-astrbook'', ''forum_memory.json''],
                         [Warning_get_data_dir_failed e]))))"

text \<open>
  \<^verbatim>\<open>__init__\<close>. Nothing looks at \<open>max_items\<close>. \<^verbatim>\<open>os.makedirs\<close> is outside every
  \<^verbatim>\<open>try\<close>, so what it raises reaches the caller, as does what \<^verbatim>\<open>_load\<close> lets through.
\<close>

definition init :: "iso_ext \<Rightarrow> env \<Rightarrow> int \<Rightarrow> path option \<Rightarrow> error + forum_memory" where
  "init ext E mi storage_dir =
     (case resolve_storage_path E storage_dir of
        Inl e \<Rightarrow> Inl e
      | Inr r \<Rightarrow>
          (case makedirs E (butlast (fst r)) of
             Some e \<Rightarrow> Inl e
           | None \<Rightarrow>
               load ext \<lparr>max_items = mi, memories = [], storage_path = fst r,
                         backing_file = files E (fst r), logged = snd r\<rparr>))"

subsection \<open>Appending\<close>

text \<open>
  \<^verbatim>\<open>MemoryItem(content=content, metadata=metadata or {})\<close>, the timestamp being
  \<^verbatim>\<open>datetime.now()\<close>. \<^verbatim>\<open>None\<close> and the empty dict are falsy.
\<close>

definition new_item :: "datetime \<Rightarrow> string \<Rightarrow> (string \<times> pyval) list option \<Rightarrow> memory_item" where
  "new_item now c md =
     \<lparr>content = PStr c, timestamp = now,
      metadata = (case md of None \<Rightarrow> PDict [] | Some kv \<Rightarrow> if kv = [] then PDict [] else PDict kv)\<rparr>"

definition add_diary ::
  "datetime \<Rightarrow> write_outcome \<Rightarrow> string \<Rightarrow> (string \<times> pyval) list option \<Rightarrow>
   forum_memory \<Rightarrow> forum_memory" where
  "add_diary now w c md s =
     (let ms = memories s @ [new_item now c md];
          ms' = (if int (length ms) > max_items s then slice_from (- max_items s) ms else ms);
          s' = save w (s\<lparr>memories := ms'\<rparr>)
      in s'\<lparr>logged := logged s' @ [Debug_added_diary]\<rparr>)"

definition clear :: "write_outcome \<Rightarrow> forum_memory \<Rightarrow> forum_memory" where
  "clear w s =
     (let s' = save w (s\<lparr>memories := []\<rparr>)
      in s'\<lparr>logged := logged s' @ [Info_cleared]\<rparr>)"

text \<open>\<^verbatim>\<open>__len__\<close>.\<close>

definition len :: "forum_memory \<Rightarrow> nat" where
  "len s = length (memories s)"

subsection \<open>Queries\<close>

text \<open>
  \<^verbatim>\<open>get_diaries\<close>. \<^verbatim>\<open>if limit:\<close> is false for \<^verbatim>\<open>None\<close> and for \<open>0\<close>. The method assigns
  to no attribute, so it returns the list only.
\<close>

definition get_diaries :: "int option \<Rightarrow> forum_memory \<Rightarrow> memory_item list" where
  "get_diaries limit s =
     (let items = rev (memories s)
      in case limit of
           None \<Rightarrow> items
         | Some l \<Rightarrow> if l \<noteq> 0 then slice_to l items else items)"

text \<open>The three literals of \<^verbatim>\<open>get_summary\<close>, byte for byte as the source file has them.\<close>

definition no_diary_message :: string where
  "no_diary_message =
     [CHR 0xC3, CHR 0xA8, CHR 0xC2, CHR 0xBF, CHR 0xCB, CHR 0x9C, CHR 0xC3, CHR 0xA6,
      CHR 0xC2, CHR 0xB2, CHR 0xC2, CHR 0xA1, CHR 0xC3, CHR 0xA6, CHR 0xC5, CHR 0x93,
      CHR 0xE2, CHR 0x80, CHR 0xB0, CHR 0xC3, CHR 0xA5, CHR 0xE2, CHR 0x80, CHR 0xA0,
      CHR 0xE2, CHR 0x84, CHR 0xA2, CHR 0xC3, CHR 0xA8, CHR 0xC2, CHR 0xBF, CHR 0xE2,
      CHR 0x80, CHR 0xA1, CHR 0xC3, CHR 0xA8, CHR 0xC2, CHR 0xAE, CHR 0xC2, CHR 0xBA,
      CHR 0xC3, CHR 0xA5, CHR 0xE2, CHR 0x80, CHR 0xBA, CHR 0xC3, CHR 0xA6, CHR 0xE2,
      CHR 0x80, CHR 0x94, CHR 0xC2, CHR 0xA5, CHR 0xC3, CHR 0xA8, CHR 0xC2, CHR 0xAE,
      CHR 0xC2, CHR 0xB0, CHR 0xC3, CHR 0xA3, CHR 0xE2, CHR 0x82, CHR 0xAC, CHR 0xE2,
      CHR 0x80, CHR 0x9A]"

definition summary_header :: string where
  "summary_header =
     [CHR 0xC3, CHR 0xB0, CHR 0xC5, CHR 0xB8, CHR 0xE2, CHR 0x80, CHR 0x9C, CHR 0xE2,
      CHR 0x80, CHR 0x9D] @ '' '' @
     [CHR 0xC3, CHR 0xA6, CHR 0xCB, CHR 0x86, CHR 0xE2, CHR 0x80, CHR 0x98, CHR 0xC3,
      CHR 0xA5, CHR 0xC5, CHR 0x93, CHR 0xC2, CHR 0xA8] @ '' AstrBook '' @
     [CHR 0xC3, CHR 0xA8, CHR 0xC2, CHR 0xAE, CHR 0xC2, CHR 0xBA, CHR 0xC3, CHR 0xA5,
      CHR 0xE2, CHR 0x80, CHR 0xBA, CHR 0xC3, CHR 0xA7, CHR 0xC5, CHR 0xA1, CHR 0xE2,
      CHR 0x80, CHR 0x9E, CHR 0xC3, CHR 0xA6, CHR 0xE2, CHR 0x80, CHR 0x94, CHR 0xC2,
      CHR 0xA5, CHR 0xC3, CHR 0xA8, CHR 0xC2, CHR 0xAE, CHR 0xC2, CHR 0xB0, CHR 0xC3,
      CHR 0xAF, CHR 0xC2, CHR 0xBC, CHR 0xC5, CHR 0xA1]"

definition line_prefix :: string where
  "line_prefix =
     ''  '' @ [CHR 0xC3, CHR 0xB0, CHR 0xC5, CHR 0xB8, CHR 0xE2, CHR 0x80, CHR 0x9C] @ '' [''"

text \<open>
  \<^verbatim>\<open>{item.content}\<close> in the f-string: a str is inserted as it is. What \<^verbatim>\<open>str()\<close> makes
  of any other value is the parameter \<open>str_of\<close>.
\<close>

definition format_content :: "(pyval \<Rightarrow> string) \<Rightarrow> pyval \<Rightarrow> string" where
  "format_content str_of v = (case v of PStr cs \<Rightarrow> cs | _ \<Rightarrow> str_of v)"

definition summary_line :: "(pyval \<Rightarrow> string) \<Rightarrow> memory_item \<Rightarrow> string" where
  "summary_line str_of item =
     line_prefix @ strftime_md_hm (timestamp item) @ ''] '' @ format_content str_of (content item)"

text \<open>\<^verbatim>\<open>sep.join(lines)\<close>.\<close>

fun join :: "string \<Rightarrow> string list \<Rightarrow> string" where
  "join sep [] = []"
| "join sep [x] = x"
| "join sep (x # y # ys) = x @ sep @ join sep (y # ys)"

definition get_summary :: "(pyval \<Rightarrow> string) \<Rightarrow> int \<Rightarrow> forum_memory \<Rightarrow> string" where
  "get_summary str_of limit s =
     (let items = get_diaries (Some limit) s
      in if items = [] then no_diary_message
         else join [CHR 0x0A] (summary_header # map (summary_line str_of) items))"

subsection \<open>A run of appends\<close>

text \<open>
  One call of \<^verbatim>\<open>add_diary\<close> with what it meets: the clock, the outcome of the write,
  and its two arguments.
\<close>

type_synonym append_call = "datetime \<times> write_outcome \<times> string \<times> (string \<times> pyval) list option"

definition item_of :: "append_call \<Rightarrow> memory_item" where
  "item_of a = (case a of (now, w, c, md) \<Rightarrow> new_item now c md)"

fun add_all :: "append_call list \<Rightarrow> forum_memory \<Rightarrow> forum_memory" where
  "add_all [] s = s"
| "add_all (a # as) s =
     add_all as (case a of (now, w, c, md) \<Rightarrow> add_diary now w c md s)"

subsection \<open>Records of the backing file\<close>

text \<open>
  A record of the file is a dict. It is of the diary kind when the test of \<^verbatim>\<open>_load\<close>
  holds for it.
\<close>

definition is_record :: "pyval \<Rightarrow> bool" where
  "is_record d = (case d of PDict kv \<Rightarrow> True | _ \<Rightarrow> False)"

definition diary_kind :: "pyval \<Rightarrow> bool" where
  "diary_kind d = (is_diary d = Inr True)"

section \<open>Example data\<close>

text \<open>
  Three times of one day and a leap day, all naive; three stored records of the diary kind
  (the third without its timestamp), two records of no diary kind, the entries the first
  two deserialize to, a journal over a given backing file, and an environment in which
  the directory can be created and every path leads to the given file. Then a library that
  reads no spelling beyond those of \<open>isoformat\<close>, the leap day at five and a half hours
  east of UTC, and a library that reads the spelling of that one datetime.
\<close>

abbreviation morning :: datetime where
  "morning \<equiv>
     \<lparr>year = 2024, month = 5, day = 1, hour = 8, minute = 0, second = 0, microsecond = 0,
      utcoffset = None\<rparr>"

abbreviation evening :: datetime where
  "evening \<equiv>
     \<lparr>year = 2024, month = 5, day = 1, hour = 21, minute = 30, second = 15, microsecond = 0,
      utcoffset = None\<rparr>"

abbreviation noon :: datetime where
  "noon \<equiv>
     \<lparr>year = 2024, month = 5, day = 1, hour = 12, minute = 0, second = 0, microsecond = 0,
      utcoffset = None\<rparr>"


abbreviation record_a :: pyval where
  "record_a \<equiv> PDict [(''memory_type'', PStr ''diary''), (''content'', PStr ''a''),
                       (''timestamp'', PStr ''2024-05-01T08:00:00''), (''metadata'', PDict [])]"

abbreviation record_b :: pyval where
  "record_b \<equiv> PDict [(''memory_type'', PStr ''diary''), (''content'', PStr ''b''),
                       (''timestamp'', PStr ''2024-05-01T21:30:15'')]"

abbreviation record_note :: pyval where
  "record_note \<equiv> PDict [(''memory_type'', PStr ''note''), (''text'', PStr ''n'')]"

abbreviation record_untagged :: pyval where
  "record_untagged \<equiv> PDict [(''content'', PStr ''u'')]"

abbreviation record_bad :: pyval where
  "record_bad \<equiv> PDict [(''memory_type'', PStr ''diary''), (''content'', PStr ''c'')]"

abbreviation entry_a :: memory_item where
  "entry_a \<equiv> \<lparr>content = PStr ''a'', timestamp = morning, metadata = PDict []\<rparr>"

abbreviation entry_b :: memory_item where
  "entry_b \<equiv> \<lparr>content = PStr ''b'', timestamp = evening, metadata = PDict []\<rparr>"

abbreviation journal_on :: "int \<Rightarrow> memory_item list \<Rightarrow> file_state \<Rightarrow> forum_memory" where
  "journal_on mi ms f \<equiv>
     \<lparr>max_items = mi, memories = ms, storage_path = [''data'', ''forum_memory.json''],
      backing_file = f, logged = []\<rparr>"

abbreviation env_with :: "file_state \<Rightarrow> env" where
  "env_with f \<equiv>
     \<lparr>get_data_dir = Inl OSError, astrbot_data_path = Inr [''astrbot''],
      makedirs = (\<lambda>p. None), files = (\<lambda>p. f)\<rparr>"

abbreviation strict :: iso_ext where
  "strict \<equiv> (\<lambda>s. None)"



section \<open>Properties\<close>

subsection \<open>Timestamps survive isoformat and fromisoformat\<close>




lemma expect_cons: "expect c (c # r) = Some r"
  by simp










text \<open>Unfolding a field of a width given as a numeral, for evaluating concrete strings.\<close>

lemma digits_numeral:
  "digits (numeral k) n = digits (pred_numeral k) (n div 10) @ [digit_char (n mod 10)]"
proof -
  have "digits (Suc (pred_numeral k)) n = digits (pred_numeral k) (n div 10) @ [digit_char (n mod 10)]"
    by (rule digits.simps)
  then show ?thesis by (simp only: numeral_eq_Suc[symmetric])
qed

lemma take_digits_numeral_Cons:
  "take_digits (numeral k) a (c # s) =
     (case digit_of c of None \<Rightarrow> None | Some d \<Rightarrow> take_digits (pred_numeral k) (10 * a + d) s)"
proof -
  have "take_digits (Suc (pred_numeral k)) a (c # s) =
     (case digit_of c of None \<Rightarrow> None | Some d \<Rightarrow> take_digits (pred_numeral k) (10 * a + d) s)"
    by (rule take_digits.simps)
  then show ?thesis by (simp only: numeral_eq_Suc[of k, symmetric])
qed

lemma take_digits_numeral_Nil: "take_digits (numeral k) a [] = None"
proof -
  have "take_digits (Suc (pred_numeral k)) a [] = None"
    by (rule take_digits.simps)
  then show ?thesis by (simp only: numeral_eq_Suc[of k, symmetric])
qed

lemma take_digits_1_Cons:
  "take_digits 1 a (c # s) = (case digit_of c of None \<Rightarrow> None | Some d \<Rightarrow> Some (10 * a + d, s))"
  by (simp split: option.split)

lemmas parse_eval =
  parse_isoformat_def parse_date_def parse_time_def parse_fraction_def
  take_digits_numeral_Cons take_digits_numeral_Nil take_digits_1_Cons
  digit_of_def digit_table_def valid_datetime_def days_in_month_def is_leap_def

subsection \<open>Entry serialization\<close>



text \<open>What \<open>from_dict\<close> does with a dict, case by case.\<close>

lemma from_dict_PDict:
  "from_dict ext (PDict kv) =
     (case map_of kv ''content'' of
        None \<Rightarrow> Inl (KeyError ''content'')
      | Some c \<Rightarrow>
          (case map_of kv ''timestamp'' of
             None \<Rightarrow> Inl (KeyError ''timestamp'')
           | Some tv \<Rightarrow>
               (case fromisoformat ext tv of
                  Inl e \<Rightarrow> Inl e
                | Inr t \<Rightarrow>
                    Inr \<lparr>content = c, timestamp = t,
                         metadata = (case map_of kv ''metadata'' of None \<Rightarrow> PDict [] | Some m \<Rightarrow> m)\<rparr>)))"
  by (simp add: from_dict_def subscript_def dict_get_def split: option.split sum.split)

text \<open>
  Claim C6. Deserializing a record (a dict) raises exactly when \<^verbatim>\<open>content\<close> is missing,
  or \<^verbatim>\<open>timestamp\<close> is missing, or \<^verbatim>\<open>fromisoformat\<close> raises on the timestamp. The
  exception is the KeyError, ValueError or TypeError of that step. A record without
  \<^verbatim>\<open>metadata\<close> that deserializes gives an entry whose metadata is the empty dict. This
  holds whatever the library reads beyond the spellings of \<open>isoformat\<close>.
\<close>

theorem from_dict_fails_iff:
  "(isl (from_dict ext (PDict kv)) \<longleftrightarrow>
      map_of kv ''content'' = None \<or> map_of kv ''timestamp'' = None \<or>
      (\<exists>tv. map_of kv ''timestamp'' = Some tv \<and> isl (fromisoformat ext tv))) \<and>
   (map_of kv ''metadata'' = None \<longrightarrow>
      (\<forall>item. from_dict ext (PDict kv) = Inr item \<longrightarrow> metadata item = PDict []))"
  by (auto simp add: from_dict_PDict split: option.splits sum.splits)

text \<open>
  A record without metadata that deserializes, and three that do not: no timestamp, a
  timestamp that is no date for a library that reads no other spelling, a timestamp that
  is no str.
\<close>

lemma from_dict_record_a: "from_dict ext record_a = Inr entry_a"
  by (simp add: from_dict_PDict fromisoformat_def parse_eval)

lemma from_dict_record_b: "from_dict ext record_b = Inr entry_b"
  by (simp add: from_dict_PDict fromisoformat_def parse_eval)

lemma from_dict_record_bad: "from_dict ext record_bad = Inl (KeyError ''timestamp'')"
  by (simp add: from_dict_PDict)

theorem from_dict_fails_iff_witness:
  "map_of [(''memory_type'', PStr ''diary''), (''content'', PStr ''b''),
           (''timestamp'', PStr ''2024-05-01T21:30:15'')] ''metadata'' = None \<and>
   from_dict strict record_b = Inr entry_b \<and> metadata entry_b = PDict [] \<and>
   \<not> isl (from_dict strict record_b) \<and>
   isl (from_dict strict record_bad) \<and>
   isl (from_dict strict (PDict [(''content'', PStr ''c''), (''timestamp'', PStr ''yesterday'')])) \<and>
   isl (from_dict strict (PDict [(''content'', PStr ''c''), (''timestamp'', PInt 5)]))"
  using from_dict_fails_iff
      [of strict "[(''memory_type'', PStr ''diary''), (''content'', PStr ''b''),
            (''timestamp'', PStr ''2024-05-01T21:30:15'')]"]
    from_dict_fails_iff [of strict "[(''memory_type'', PStr ''diary''), (''content'', PStr ''c'')]"]
    from_dict_fails_iff [of strict "[(''content'', PStr ''c''), (''timestamp'', PStr ''yesterday'')]"]
    from_dict_fails_iff [of strict "[(''content'', PStr ''c''), (''timestamp'', PInt 5)]"]
    from_dict_record_b [of strict]
  by (simp add: fromisoformat_def parse_eval)

subsection \<open>Appending and trimming\<close>

lemma save_memories: "memories (save w s) = memories s"
  by (simp add: save_def split: write_outcome.split)

lemma save_max_items: "max_items (save w s) = max_items s"
  by (simp add: save_def split: write_outcome.split)

lemma add_diary_max_items: "max_items (add_diary now w c md s) = max_items s"
  by (simp add: add_diary_def Let_def save_max_items)

lemma add_diary_memories:
  "memories (add_diary now w c md s) =
     (if max_items s < int (length (memories s)) + 1
      then slice_from (- max_items s) (memories s @ [new_item now c md])
      else memories s @ [new_item now c md])"
  by (simp add: add_diary_def Let_def save_memories)

lemma slice_from_neg: "0 < m \<Longrightarrow> slice_from (- m) xs = drop (length xs - nat m) xs"
  by (simp add: slice_from_def nat_diff_distrib')

lemma add_diary_newest:
  assumes "0 < max_items s"
  shows "memories (add_diary now w c md s) =
           drop (Suc (length (memories s)) - nat (max_items s)) (memories s @ [new_item now c md])"
  using assms by (auto simp add: add_diary_memories slice_from_neg)

text \<open>
  With a positive capacity the bound holds after every \<open>add_diary\<close>, whatever the list
  was before, and \<open>clear\<close> leaves no entry.
\<close>

lemma add_diary_bounded:
  assumes "0 < max_items s"
  shows "int (length (memories (add_diary now w c md s))) \<le> max_items s"
  using assms by (simp add: add_diary_newest)

lemma clear_memories: "memories (clear w s) = []"
  by (simp add: clear_def Let_def save_memories)

lemma add_all_max_items: "max_items (add_all cs s) = max_items s"
  by (induction cs arbitrary: s) (auto simp add: add_diary_max_items)

lemma keep_last_append:
  "drop (length (drop (length X - m) X) + n - m) (drop (length X - m) X @ Y) =
   drop (length X + n - m) (X @ Y)"
proof (cases "length X \<le> m")
  case True
  then show ?thesis by simp
next
  case False
  then have l: "length (drop (length X - m) X) = m" by simp
  have "drop (length X - m) X @ Y = drop (length X - m) (X @ Y)" by simp
  then have "drop n (drop (length X - m) X @ Y) = drop (n + (length X - m)) (X @ Y)"
    by (simp only: drop_drop)
  moreover have "n + (length X - m) = length X + n - m" using False by simp
  ultimately show ?thesis by (simp only: l add_diff_cancel_left')
qed

lemma add_all_memories:
  assumes "0 < max_items s" and "int (length (memories s)) \<le> max_items s"
  shows "memories (add_all cs s) =
           drop (length (memories s) + length cs - nat (max_items s))
                (memories s @ map item_of cs)"
  using assms
proof (induction cs arbitrary: s)
  case Nil
  then show ?case by simp
next
  case (Cons a cs)
  obtain now w c md where a: "a = (now, w, c, md)" by (cases a) auto
  let ?s1 = "add_diary now w c md s"
  let ?m = "nat (max_items s)"
  let ?X = "memories s @ [new_item now c md]"
  have m1: "max_items ?s1 = max_items s" by (rule add_diary_max_items)
  have ms1: "memories ?s1 = drop (length ?X - ?m) ?X"
    using Cons.prems(1) by (simp add: add_diary_newest)
  have b1: "int (length (memories ?s1)) \<le> max_items ?s1"
    using add_diary_bounded[OF Cons.prems(1)] m1 by simp
  have ih: "memories (add_all cs ?s1) =
      drop (length (memories ?s1) + length cs - ?m) (memories ?s1 @ map item_of cs)"
    using Cons.IH[of ?s1] Cons.prems(1) b1 m1 by simp
  have i: "item_of (now, w, c, md) = new_item now c md" by (simp add: item_of_def)
  have "memories (add_all cs ?s1) = drop (length ?X + length cs - ?m) (?X @ map item_of cs)"
    unfolding ih ms1 by (rule keep_last_append)
  then show ?case by (simp add: a i)
qed

text \<open>
  Claim C1. A journal with positive capacity and no entries receives more appends than its
  capacity. Afterwards its size is the capacity, and \<open>get_diaries\<close> without a limit returns
  the last \<open>max_items\<close> appended entries, newest first: the first \<open>max_items\<close> of the
  appended entries in reverse order.
\<close>

theorem appends_keep_newest:
  assumes "0 < max_items s" and "memories s = []" and "max_items s < int (length cs)"
  shows "int (len (add_all cs s)) = max_items s \<and>
         get_diaries None (add_all cs s) = take (nat (max_items s)) (rev (map item_of cs))"
proof -
  have ms: "memories (add_all cs s) = drop (length cs - nat (max_items s)) (map item_of cs)"
    using add_all_memories[of s cs] assms by simp
  have "int (len (add_all cs s)) = max_items s"
    using assms by (simp add: len_def ms)
  moreover have "get_diaries None (add_all cs s) = take (nat (max_items s)) (rev (map item_of cs))"
    using assms by (simp add: get_diaries_def ms rev_drop)
  ultimately show ?thesis by simp
qed

text \<open>
  The example of the claim: capacity 2 and the appends a, b, c give size 2 and the entries
  c, b.
\<close>

theorem appends_keep_newest_witness:
  "(0::int) < max_items (journal_on 2 [] Absent) \<and>
   memories (journal_on 2 [] Absent) = [] \<and>
   max_items (journal_on 2 [] Absent) <
     int (length [(morning, Written, ''a'', None), (noon, Written, ''b'', None),
                  (evening, Written, ''c'', None)]) \<and>
   len (add_all [(morning, Written, ''a'', None), (noon, Written, ''b'', None),
                 (evening, Written, ''c'', None)] (journal_on 2 [] Absent)) = 2 \<and>
   get_diaries None
     (add_all [(morning, Written, ''a'', None), (noon, Written, ''b'', None),
               (evening, Written, ''c'', None)] (journal_on 2 [] Absent)) =
     [\<lparr>content = PStr ''c'', timestamp = evening, metadata = PDict []\<rparr>,
      \<lparr>content = PStr ''b'', timestamp = noon, metadata = PDict []\<rparr>]"
  using appends_keep_newest
    [of "journal_on 2 [] Absent"
        "[(morning, Written, ''a'', None), (noon, Written, ''b'', None),
          (evening, Written, ''c'', None)]"]
  by (simp add: item_of_def new_item_def numeral_2_eq_2)

text \<open>
  Claim C10. A journal of capacity at least 1 holds more entries than its capacity. One
  \<open>add_diary\<close> brings the count to exactly the capacity; what is kept is the newest
  \<open>max_items\<close> entries of the list with the new entry appended, and the new entry is the
  last of them.
\<close>

theorem add_diary_restores_bound:
  assumes "1 \<le> max_items s" and "max_items s < int (length (memories s))"
  shows "int (length (memories (add_diary now w c md s))) = max_items s \<and>
         memories (add_diary now w c md s) =
           drop (Suc (length (memories s)) - nat (max_items s)) (memories s @ [new_item now c md]) \<and>
         last (memories (add_diary now w c md s)) = new_item now c md"
proof -
  have p: "0 < max_items s" using assms(1) by simp
  have ms: "memories (add_diary now w c md s) =
           drop (Suc (length (memories s)) - nat (max_items s)) (memories s @ [new_item now c md])"
    by (rule add_diary_newest[OF p])
  have lt: "Suc (length (memories s)) - nat (max_items s) < length (memories s @ [new_item now c md])"
    using assms by simp
  have "last (drop (Suc (length (memories s)) - nat (max_items s)) (memories s @ [new_item now c md]))
      = last (memories s @ [new_item now c md])"
    using lt by (rule last_drop)
  then show ?thesis using assms by (simp add: ms)
qed

text \<open>
  Capacity 1 and the two entries a, b: after appending z only z is left.
\<close>

theorem add_diary_restores_bound_witness:
  "1 \<le> max_items (journal_on 1 [entry_a, entry_b] Absent) \<and>
   max_items (journal_on 1 [entry_a, entry_b] Absent) <
     int (length (memories (journal_on 1 [entry_a, entry_b] Absent))) \<and>
   memories (add_diary noon Written ''z'' None (journal_on 1 [entry_a, entry_b] Absent)) =
     [\<lparr>content = PStr ''z'', timestamp = noon, metadata = PDict []\<rparr>]"
  using add_diary_restores_bound
    [of "journal_on 1 [entry_a, entry_b] Absent" noon Written "''z''" None]
  by (simp add: new_item_def)

subsection \<open>Loading\<close>

lemma is_diary_record:
  "is_diary (PDict kv) = Inr (map_of kv ''memory_type'' = Some (PStr ''diary''))"
  by (auto simp add: is_diary_def dict_get_def split: option.split)

lemma is_diary_of_record: "is_record d \<Longrightarrow> is_diary d = Inr (diary_kind d)"
  by (cases d) (auto simp add: is_record_def diary_kind_def is_diary_record)

lemma diary_kind_examples:
  "diary_kind record_a" "diary_kind record_b" "diary_kind record_bad"
  "\<not> diary_kind record_note" "\<not> diary_kind record_untagged"
  by (simp_all add: diary_kind_def is_diary_record)

lemma load_items_records:
  assumes "list_all is_record ds"
      and "list_all (\<lambda>d. \<not> isl (from_dict ext d)) (filter diary_kind ds)"
  shows "\<exists>ms. load_items ext ds = Inr ms \<and>
              map Inr ms = map (from_dict ext) (filter diary_kind ds)"
  using assms
proof (induction ds)
  case Nil
  then show ?case by simp
next
  case (Cons d ds)
  from Cons.prems have r: "is_record d" and rs: "list_all is_record ds" by simp_all
  from Cons.prems(2) have ok: "list_all (\<lambda>d. \<not> isl (from_dict ext d)) (filter diary_kind ds)"
    by (simp split: if_splits)
  from Cons.IH[OF rs ok] obtain ms where
    ms: "load_items ext ds = Inr ms" "map Inr ms = map (from_dict ext) (filter diary_kind ds)"
    by blast
  show ?case
  proof (cases "diary_kind d")
    case True
    with Cons.prems(2) have "\<not> isl (from_dict ext d)" by simp
    then obtain m where m: "from_dict ext d = Inr m" by (cases "from_dict ext d") auto
    show ?thesis using True ms m by (simp add: is_diary_of_record[OF r])
  next
    case False
    then show ?thesis using ms by (simp add: is_diary_of_record[OF r])
  qed
qed

text \<open>
  Claim C7. The backing file holds a list of records, and each record of the diary kind
  deserializes. Then \<open>load\<close> returns, and it keeps the deserialized diary records, all of
  them and nothing else, in the order of the file. The other records are dropped without
  a trace: the one line logged is the count of the entries loaded.
\<close>

theorem load_keeps_diary_records:
  assumes "backing_file s = Holds (PList ds)"
      and "list_all is_record ds"
      and "list_all (\<lambda>d. \<not> isl (from_dict ext d)) (filter diary_kind ds)"
  shows "\<exists>s'. load ext s = Inr s' \<and>
              map Inr (memories s') = map (from_dict ext) (filter diary_kind ds) \<and>
              logged s' = logged s @ [Debug_loaded (length (filter diary_kind ds))]"
proof -
  from load_items_records[OF assms(2,3)] obtain ms where
    ms: "load_items ext ds = Inr ms" "map Inr ms = map (from_dict ext) (filter diary_kind ds)"
    by blast
  from ms(2) have "length ms = length (filter diary_kind ds)"
    by (metis length_map)
  then show ?thesis using ms assms(1)
    by (simp add: load_def load_data_def py_iter_def)
qed

text \<open>
  A file with a diary record, a note, a record without a tag and a second diary record:
  the two diary entries are loaded, in that order.
\<close>

theorem load_keeps_diary_records_witness:
  "list_all is_record [record_a, record_note, record_untagged, record_b] \<and>
   list_all (\<lambda>d. \<not> isl (from_dict strict d))
     (filter diary_kind [record_a, record_note, record_untagged, record_b]) \<and>
   filter diary_kind [record_a, record_note, record_untagged, record_b] = [record_a, record_b] \<and>
   (\<exists>s'. load strict (journal_on 50 []
             (Holds (PList [record_a, record_note, record_untagged, record_b]))) = Inr s' \<and>
         memories s' = [entry_a, entry_b] \<and> logged s' = [Debug_loaded 2])"
proof -
  let ?ds = "[record_a, record_note, record_untagged, record_b]"
  let ?s = "journal_on 50 [] (Holds (PList ?ds))"
  have r: "list_all is_record ?ds"
    by (simp add: is_record_def)
  have f: "filter diary_kind ?ds = [record_a, record_b]"
    using diary_kind_examples by simp
  have ok: "list_all (\<lambda>d. \<not> isl (from_dict strict d)) (filter diary_kind ?ds)"
    unfolding f by (simp add: from_dict_record_a from_dict_record_b)
  have b: "backing_file ?s = Holds (PList ?ds)"
    by simp
  have "\<exists>s'. load strict ?s = Inr s' \<and>
          map Inr (memories s') = map (from_dict strict) (filter diary_kind ?ds) \<and>
          logged s' = logged ?s @ [Debug_loaded (length (filter diary_kind ?ds))]"
    using b r ok by (rule load_keeps_diary_records)
  then obtain s' where s': "load strict ?s = Inr s'"
      "map Inr (memories s') = map (from_dict strict) (filter diary_kind ?ds)"
      "logged s' = logged ?s @ [Debug_loaded (length (filter diary_kind ?ds))]"
    by blast
  have "map Inr (memories s') = [Inr entry_a, Inr entry_b :: error + memory_item]"
    using s'(2) unfolding f list.map from_dict_record_a from_dict_record_b .
  then have m: "memories s' = [entry_a, entry_b]"
    by (auto simp add: map_eq_Cons_conv)
  have l: "logged s' = [Debug_loaded 2]"
    using s'(3) unfolding f by simp
  have e: "\<exists>s'. load strict ?s = Inr s' \<and> memories s' = [entry_a, entry_b] \<and>
      logged s' = [Debug_loaded 2]"
    using s'(1) m l by blast
  show ?thesis
    by (intro conjI) (fact r ok f e)+
qed

text \<open>One record of the diary kind that does not deserialize fails the whole list.\<close>

lemma load_items_bad_record:
  assumes "d \<in> set ds" and "diary_kind d" and "isl (from_dict ext d)"
  shows "isl (load_items ext ds)"
  using assms
proof (induction ds)
  case Nil
  then show ?case by simp
next
  case (Cons x xs)
  show ?case
  proof (cases "x = d")
    case True
    then show ?thesis using Cons.prems
      by (auto simp add: diary_kind_def split: sum.splits)
  next
    case False
    with Cons have "isl (load_items ext xs)" by simp
    then show ?thesis
      by (auto split: sum.splits)
  qed
qed

text \<open>
  What the handler of \<open>load\<close> covers. Without a backing file \<open>load\<close> changes nothing and
  logs nothing. When reading the file raises, or the loaded value cannot be iterated, or
  the condition or \<open>from_dict\<close> raises on an element (a record of the diary kind that
  does not deserialize among them), \<open>load\<close> logs the failure and returns with the
  entries empty.
\<close>

lemma load_handles_body:
  "(backing_file s = Absent \<longrightarrow> load ext s = Inr s) \<and>
   (\<forall>e. backing_file s = Unreadable e \<or>
         (\<exists>data. backing_file s = Holds data \<and> load_data ext data = Inl e) \<longrightarrow>
        load ext s = Inr (s\<lparr>memories := [], logged := logged s @ [Error_failed_to_load e]\<rparr>)) \<and>
   (\<forall>ds d. backing_file s = Holds (PList ds) \<and> d \<in> set ds \<and> diary_kind d \<and>
           isl (from_dict ext d) \<longrightarrow>
        (\<exists>e. load ext s =
               Inr (s\<lparr>memories := [], logged := logged s @ [Error_failed_to_load e]\<rparr>)))"
proof (intro conjI allI impI)
  assume "backing_file s = Absent"
  then show "load ext s = Inr s" by (simp add: load_def)
next
  fix e
  assume "backing_file s = Unreadable e \<or>
    (\<exists>data. backing_file s = Holds data \<and> load_data ext data = Inl e)"
  then show "load ext s = Inr (s\<lparr>memories := [], logged := logged s @ [Error_failed_to_load e]\<rparr>)"
    by (auto simp add: load_def)
next
  fix ds d
  assume a: "backing_file s = Holds (PList ds) \<and> d \<in> set ds \<and> diary_kind d \<and>
    isl (from_dict ext d)"
  then have "isl (load_items ext ds)" using load_items_bad_record by blast
  then obtain e where "load_data ext (PList ds) = Inl e"
    by (cases "load_items ext ds") (auto simp add: load_data_def py_iter_def)
  then show "\<exists>e. load ext s =
      Inr (s\<lparr>memories := [], logged := logged s @ [Error_failed_to_load e]\<rparr>)"
    using a by (auto simp add: load_def)
qed

text \<open>\<open>load\<close> raises exactly what \<^verbatim>\<open>exists()\<close> raises, and nothing else.\<close>

lemma load_fails_iff: "load ext s = Inl e \<longleftrightarrow> backing_file s = Stat_fails e"
  by (simp add: load_def split: file_state.split sum.split)

text \<open>
  Claim C4 fails where \<^verbatim>\<open>exists()\<close> raises. The call stands before the \<^verbatim>\<open>try\<close> of
  \<^verbatim>\<open>_load\<close>, so an OSError of it leaves \<open>load\<close> and then \<open>init\<close>, where the claim has
  no exception leave \<open>load\<close>. Everything the body of the \<^verbatim>\<open>try\<close> raises is handled as the
  claim says (\<open>load_handles_body\<close>).
\<close>

theorem load_passes_on_stat_error:
  "load ext (journal_on 50 [] (Stat_fails OSError)) = Inl OSError \<and>
   init ext (env_with (Stat_fails OSError)) 50 (Some [''data'']) = Inl OSError"
  by (simp add: load_def init_def resolve_storage_path_def)

subsection \<open>Construction\<close>

text \<open>
  \<open>load\<close> and \<open>init\<close> never look at the capacity: with another capacity they raise the
  same exception or return the same journal, but for the capacity it holds.
\<close>

lemma load_capacity:
  "load ext (s\<lparr>max_items := mi\<rparr>) = map_sum id (\<lambda>j. j\<lparr>max_items := mi\<rparr>) (load ext s)"
  by (simp add: load_def split: file_state.split sum.split)

lemma init_capacity:
  "init ext E mi sd = map_sum id (\<lambda>j. j\<lparr>max_items := mi\<rparr>) (init ext E mi' sd)"
proof -
  have "load ext \<lparr>max_items = mi, memories = [], storage_path = p, backing_file = f, logged = lg\<rparr> =
        map_sum id (\<lambda>j. j\<lparr>max_items := mi\<rparr>)
          (load ext \<lparr>max_items = mi', memories = [], storage_path = p, backing_file = f,
                     logged = lg\<rparr>)" for p f lg
    using load_capacity
      [where s = "\<lparr>max_items = mi', memories = [], storage_path = p, backing_file = f,
                  logged = lg\<rparr>" and mi = mi and ext = ext]
    by simp
  then show ?thesis
    by (simp add: init_def split: sum.split option.split)
qed

text \<open>The exceptions that leave \<open>init\<close>, none of them about the capacity.\<close>

lemma init_fails_iff:
  "init ext E mi sd = Inl e \<longleftrightarrow>
     (case resolve_storage_path E sd of
        Inl e' \<Rightarrow> e' = e
      | Inr r \<Rightarrow> makedirs E (butlast (fst r)) = Some e \<or>
                 (makedirs E (butlast (fst r)) = None \<and> files E (fst r) = Stat_fails e))"
  by (auto simp add: init_def load_fails_iff split: sum.split option.split)

text \<open>
  Claim C5, as the code has it. The capacity is not validated. A construction with a
  capacity of zero or less does what the construction with any other capacity does in
  the same surroundings: it raises the same exception, or it returns the same journal
  with the capacity it was given.
\<close>

theorem init_accepts_any_capacity:
  assumes "mi \<le> 0"
  shows "init ext E mi sd = map_sum id (\<lambda>j. j\<lparr>max_items := mi\<rparr>) (init ext E mi' sd) \<and>
         (\<forall>j. init ext E mi sd = Inr j \<longrightarrow> max_items j = mi)"
proof -
  have c: "init ext E mi sd = map_sum id (\<lambda>j. j\<lparr>max_items := mi\<rparr>) (init ext E mi' sd)"
    by (rule init_capacity)
  have "max_items j = mi" if "init ext E mi sd = Inr j" for j
    using that unfolding c by (cases "init ext E mi' sd") auto
  with c show ?thesis by blast
qed

text \<open>
  Capacity \<open>- 3\<close> and capacity 50 with no backing file: the same journal, of capacity
  \<open>- 3\<close> and of capacity 50.
\<close>

theorem init_accepts_any_capacity_witness:
  "(- 3 :: int) \<le> 0 \<and>
   init strict (env_with Absent) 50 (Some [''data'']) = Inr (journal_on 50 [] Absent) \<and>
   init strict (env_with Absent) (- 3) (Some [''data'']) = Inr (journal_on (- 3) [] Absent) \<and>
   max_items (journal_on (- 3) [] Absent) = - 3"
proof -
  have i: "init strict (env_with Absent) 50 (Some [''data'']) = Inr (journal_on 50 [] Absent)"
    by (simp add: init_def resolve_storage_path_def load_def)
  show ?thesis
    using init_accepts_any_capacity [of "- 3" strict "env_with Absent" "Some [''data'']" 50] i
    by simp
qed

text \<open>
  Claim C5 as stated fails: a construction with capacity 0 returns a journal.
\<close>

theorem init_zero_capacity_succeeds:
  "init strict (env_with Absent) 0 (Some [''data'']) = Inr (journal_on 0 [] Absent)"
  by (simp add: init_def resolve_storage_path_def load_def)

lemma load_data_two: "load_data ext (PList [record_a, record_b]) = Inr [entry_a, entry_b]"
  using diary_kind_examples(1,2)
  by (simp add: load_data_def py_iter_def diary_kind_def from_dict_record_a from_dict_record_b)

text \<open>
  Claim C2 fails after construction. With capacity 1 and a backing file of two diary
  records, \<open>init\<close> returns a journal of two entries: \<open>load\<close> does not trim, which
  \<open>add_diary\<close> does (\<open>add_diary_bounded\<close>, and \<open>clear_memories\<close> for \<open>clear\<close>).
\<close>

theorem init_loads_beyond_capacity:
  "init ext (env_with (Holds (PList [record_a, record_b]))) 1 (Some [''data'']) =
     Inr ((journal_on 1 [entry_a, entry_b] (Holds (PList [record_a, record_b])))
            \<lparr>logged := [Debug_loaded 2]\<rparr>) \<and>
   len ((journal_on 1 [entry_a, entry_b] (Holds (PList [record_a, record_b])))
            \<lparr>logged := [Debug_loaded 2]\<rparr>) = 2 \<and>
   \<not> int (len ((journal_on 1 [entry_a, entry_b] (Holds (PList [record_a, record_b])))
            \<lparr>logged := [Debug_loaded 2]\<rparr>)) \<le> 1"
  by (simp add: init_def resolve_storage_path_def load_def load_data_two len_def)

subsection \<open>Queries\<close>

text \<open>
  Without a limit \<open>get_diaries\<close> returns the reversed entries, with a positive limit
  the first \<open>limit\<close> of them. With the limit 0 it returns all of them as well.
\<close>

lemma get_diaries_None: "get_diaries None s = rev (memories s)"
  by (simp add: get_diaries_def)

lemma get_diaries_positive:
  "0 < l \<Longrightarrow> get_diaries (Some l) s = take (nat l) (rev (memories s))"
  by (simp add: get_diaries_def slice_to_def)

lemma get_diaries_zero: "get_diaries (Some 0) s = rev (memories s)"
  by (simp add: get_diaries_def)

text \<open>
  Claim C8 fails at the limit 0. A journal of two entries returns both, where the first 0
  elements of the reversed list are none.
\<close>

theorem get_diaries_zero_limit_returns_all:
  "get_diaries (Some 0) (journal_on 50 [entry_a, entry_b] Absent) = [entry_b, entry_a] \<and>
   take 0 (rev (memories (journal_on 50 [entry_a, entry_b] Absent))) = []"
  by (simp add: get_diaries_def)

text \<open>
  The summary of a journal without entries is the constant message, which is not the
  empty string. With a positive limit and entries it is the header and one line for each
  of the first \<open>limit\<close> reversed entries, joined by newlines.
\<close>

lemma no_diary_message_not_empty: "no_diary_message \<noteq> []"
  by (simp add: no_diary_message_def)

lemma get_summary_empty: "memories s = [] \<Longrightarrow> get_summary str_of l s = no_diary_message"
  by (simp add: get_summary_def get_diaries_def slice_to_def)

lemma get_summary_positive:
  assumes "0 < l" and "memories s \<noteq> []"
  shows "get_summary str_of l s =
           join [CHR 0x0A]
             (summary_header # map (summary_line str_of) (take (nat l) (rev (memories s))))"
  using assms by (simp add: get_summary_def get_diaries_positive)

lemma summary_line_str:
  "summary_line str_of \<lparr>content = PStr c, timestamp = t, metadata = md\<rparr> =
     line_prefix @ digits 2 (month t) @ ''-'' @ digits 2 (day t) @ '' '' @
       digits 2 (hour t) @ '':'' @ digits 2 (minute t) @ ''] '' @ c"
  by (simp add: summary_line_def format_content_def strftime_md_hm_def)

text \<open>
  Claim C9 fails at the limit 0, for the reason Claim C8 does. The summary of a journal of
  two entries lists both, where at most 0 were asked for.
\<close>

theorem get_summary_zero_limit_lists_all:
  "get_summary str_of 0 (journal_on 50 [entry_a, entry_b] Absent) =
     summary_header @ [CHR 0x0A] @ line_prefix @ ''05-01 21:30] b'' @ [CHR 0x0A] @
     line_prefix @ ''05-01 08:00] a''"
  by (simp add: get_summary_def get_diaries_def summary_line_str digits_numeral
        digit_char_def digit_table_def)

end
